theory Spec2Isabelle
  imports Complex_Main "HOL-Library.Sublist"
begin

section \<open>JavaScript values, errors and the world the router runs in\<close>

text \<open>
  The router of \<^verbatim>\<open>mcp-server/src/services/deimos.ts\<close> reads two files and two
  environment variables, and talks to two HTTP endpoints. None of the data it receives is
  validated, so the model keeps JavaScript's dynamic values: a parsed JSON document is a
  \<open>json\<close>, and a value that may also be \<^verbatim>\<open>undefined\<close> is a \<open>json option\<close> with
  \<open>None\<close> for \<^verbatim>\<open>undefined\<close>. Numbers are rationals: \<^verbatim>\<open>NaN\<close>, the infinities
  and rounding are not modelled, and the program never computes with a number. A
  \<open>char\<close> stands for one UTF-16 code unit.
\<close>

datatype json =
    JNull
  | JBool bool
  | JNum rat
  | JStr string
  | JArr "json list"
  | JObj "(string \<times> json) list"

type_synonym jsval = "json option"

text \<open>A thrown value: the \<^verbatim>\<open>name\<close> and the \<^verbatim>\<open>message\<close> of the error object.\<close>

datatype js_error = Thrown string string

definition Error :: "string \<Rightarrow> js_error" where
  "Error msg = Thrown ''Error'' msg"

definition TypeError :: "string \<Rightarrow> js_error" where
  "TypeError msg = Thrown ''TypeError'' msg"

text \<open>\<^verbatim>\<open>`${error}`\<close> calls \<^verbatim>\<open>Error.prototype.toString\<close>.\<close>

fun error_toString :: "js_error \<Rightarrow> string" where
  "error_toString (Thrown name msg) =
     (if name = [] then msg else if msg = [] then name else name @ '': '' @ msg)"

text \<open>The truthiness that \<^verbatim>\<open>!x\<close>, \<^verbatim>\<open>x && y\<close> and \<^verbatim>\<open>if (x)\<close> test.\<close>

fun truthy :: "jsval \<Rightarrow> bool" where
  "truthy None = False"
| "truthy (Some JNull) = False"
| "truthy (Some (JBool b)) = b"
| "truthy (Some (JNum x)) = (x \<noteq> 0)"
| "truthy (Some (JStr s)) = (s \<noteq> [])"
| "truthy (Some (JArr xs)) = True"
| "truthy (Some (JObj kvs)) = True"

text \<open>
  Reading a property. On \<^verbatim>\<open>undefined\<close> and \<^verbatim>\<open>null\<close> it throws a TypeError; on an
  object it looks the key up; \<^verbatim>\<open>[0]\<close> on an array or a string gives the first element
  or \<^verbatim>\<open>undefined\<close>. The router reads only the names \<^verbatim>\<open>api_url\<close>, \<^verbatim>\<open>api_key\<close>,
  \<^verbatim>\<open>selected_model\<close>, \<^verbatim>\<open>estimated_cost\<close>, \<^verbatim>\<open>confidence\<close>, \<^verbatim>\<open>reasoning\<close>,
  \<^verbatim>\<open>choices\<close>, \<^verbatim>\<open>0\<close>, \<^verbatim>\<open>message\<close> and \<^verbatim>\<open>content\<close>, none of which is a built-in
  property of a primitive or an array, so every other read gives \<^verbatim>\<open>undefined\<close>.
\<close>

fun get_prop :: "jsval \<Rightarrow> string \<Rightarrow> js_error + jsval" where
  "get_prop None k =
     Inl (TypeError (''Cannot read properties of undefined (reading '' @ [CHR 0x27] @ k @ [CHR 0x27] @ '')''))"
| "get_prop (Some JNull) k =
     Inl (TypeError (''Cannot read properties of null (reading '' @ [CHR 0x27] @ k @ [CHR 0x27] @ '')''))"
| "get_prop (Some (JObj kvs)) k = Inr (map_of kvs k)"
| "get_prop (Some (JArr xs)) k =
     Inr (if k = ''0'' then (case xs of [] \<Rightarrow> None | x # _ \<Rightarrow> Some x) else None)"
| "get_prop (Some (JStr s)) k =
     Inr (if k = ''0'' then (case s of [] \<Rightarrow> None | c # _ \<Rightarrow> Some (JStr [c])) else None)"
| "get_prop (Some (JBool b)) k = Inr None"
| "get_prop (Some (JNum x)) k = Inr None"

text \<open>A chain of reads \<^verbatim>\<open>v.k1.k2\<close>: the first read that throws ends it.\<close>

fun get_path :: "jsval \<Rightarrow> string list \<Rightarrow> js_error + jsval" where
  "get_path v [] = Inr v"
| "get_path v (k # ks) =
     (case get_prop v k of
        Inl e \<Rightarrow> Inl e
      | Inr x \<Rightarrow> get_path x ks)"

text \<open>\<^verbatim>\<open>a ?? b\<close>: the default replaces \<^verbatim>\<open>undefined\<close> and \<^verbatim>\<open>null\<close> only.\<close>

fun nullish :: "jsval \<Rightarrow> json \<Rightarrow> json" where
  "nullish None d = d"
| "nullish (Some JNull) d = d"
| "nullish (Some v) d = v"

text \<open>
  The string a template literal puts in for a value, or the TypeError it throws. An object
  is printed by the method found under \<^verbatim>\<open>toString\<close>: a parsed JSON object with no
  such key inherits \<^verbatim>\<open>Object.prototype.toString\<close> and prints as
  \<^verbatim>\<open>[object Object]\<close>; one with such a key has a value there that is not callable, and
  neither is its \<^verbatim>\<open>valueOf\<close> of any use (its own is not callable, the inherited one
  returns the object), so the conversion throws. An array prints its elements joined by
  commas, \<^verbatim>\<open>null\<close> as the empty string, and throws when an element does. How a number
  prints (\<^verbatim>\<open>Number::toString\<close>) is a parameter.
\<close>

fun join_comma :: "string list \<Rightarrow> string" where
  "join_comma [] = []"
| "join_comma [s] = s"
| "join_comma (s # t # ss) = s @ '','' @ join_comma (t # ss)"

fun json_toString :: "(rat \<Rightarrow> string) \<Rightarrow> json \<Rightarrow> js_error + string"
  and elements_toString :: "(rat \<Rightarrow> string) \<Rightarrow> json list \<Rightarrow> js_error + string list" where
  "json_toString f JNull = Inr ''null''"
| "json_toString f (JBool b) = Inr (if b then ''true'' else ''false'')"
| "json_toString f (JNum x) = Inr (f x)"
| "json_toString f (JStr s) = Inr s"
| "json_toString f (JArr xs) =
     (case elements_toString f xs of
        Inl e \<Rightarrow> Inl e
      | Inr ss \<Rightarrow> Inr (join_comma ss))"
| "json_toString f (JObj kvs) =
     (case map_of kvs ''toString'' of
        Some _ \<Rightarrow> Inl (TypeError ''Cannot convert object to primitive value'')
      | None \<Rightarrow> Inr ''[object Object]'')"
| "elements_toString f [] = Inr []"
| "elements_toString f (x # xs) =
     (case (case x of JNull \<Rightarrow> Inr [] | _ \<Rightarrow> json_toString f x) of
        Inl e \<Rightarrow> Inl e
      | Inr s \<Rightarrow>
          (case elements_toString f xs of
             Inl e \<Rightarrow> Inl e
           | Inr ss \<Rightarrow> Inr (s # ss)))"

fun template :: "(rat \<Rightarrow> string) \<Rightarrow> jsval \<Rightarrow> js_error + string" where
  "template f None = Inr ''undefined''"
| "template f (Some v) = json_toString f v"

text \<open>Decimal digits of a natural number, for \<^verbatim>\<open>`${response.status}`\<close>.\<close>

function nat_toString :: "nat \<Rightarrow> string" where
  "nat_toString n =
     (if n < 10 then [char_of (48 + n)]
      else nat_toString (n div 10) @ [char_of (48 + n mod 10)])"
  by pat_completeness auto
termination
  by (relation "measure id") auto

declare nat_toString.simps [simp del]

subsection \<open>HTTP and the process environment\<close>

record http_request =
  url :: string
  http_method :: string
  authorization :: string
  content_type :: string
  body :: json

text \<open>
  \<^verbatim>\<open>JSON.stringify\<close> of a payload is kept as the JSON value it serialises; a property
  whose value is \<^verbatim>\<open>undefined\<close> is left out, as \<^verbatim>\<open>JSON.stringify\<close> does.
\<close>

fun opt_field :: "string \<Rightarrow> jsval \<Rightarrow> (string \<times> json) list" where
  "opt_field k None = []"
| "opt_field k (Some v) = [(k, v)]"

record http_response =
  status :: nat
  body_text :: "js_error + string"

text \<open>
  The world: the file system, \<^verbatim>\<open>JSON.parse\<close>, the two environment variables and the
  network. \<open>fetch w n rq\<close> is the outcome of the \<open>n\<close>-th network call of a run when it
  sends \<open>rq\<close>, so the same request sent twice may be answered differently; \<open>Inl\<close> is a
  rejected promise. Writes to the console are not modelled.
\<close>

record world =
  cwd :: string
  homedir :: string
  readFile :: "string \<Rightarrow> js_error + string"
  JSON_parse :: "string \<Rightarrow> js_error + json"
  DEIMOS_API_URL :: "string option"
  DEIMOS_API_KEY :: "string option"
  fetch :: "nat \<Rightarrow> http_request \<Rightarrow> js_error + http_response"
  Number_toString :: "rat \<Rightarrow> string"

definition response_ok :: "http_response \<Rightarrow> bool" where
  "response_ok response \<longleftrightarrow> 200 \<le> status response \<and> status response \<le> 299"

definition response_json :: "world \<Rightarrow> http_response \<Rightarrow> js_error + json" where
  "response_json w response =
     (case body_text response of
        Inl e \<Rightarrow> Inl e
      | Inr text \<Rightarrow> JSON_parse w text)"

text \<open>\<^verbatim>\<open>path.join\<close> of a normalised directory and a file name.\<close>

definition join :: "string \<Rightarrow> string \<Rightarrow> string" where
  "join dir name = dir @ ''/'' @ name"

section \<open>The router\<close>

datatype TaskType = ANALYSIS | SUMMARIZATION | CODE_GENERATION | CLASSIFICATION | EXTRACTION

fun TaskType_value :: "TaskType \<Rightarrow> string" where
  "TaskType_value ANALYSIS = ''analysis''"
| "TaskType_value SUMMARIZATION = ''summarization''"
| "TaskType_value CODE_GENERATION = ''code_generation''"
| "TaskType_value CLASSIFICATION = ''classification''"
| "TaskType_value EXTRACTION = ''extraction''"

record RoutingRequest =
  taskType :: TaskType
  prompt :: string
  reqContext :: "string option"
  maxTokens :: "rat option"
  temperature :: "rat option"
  costPriority :: "rat option"

text \<open>
  The fields of a response are whatever the code puts there: on the routed path they come
  from the remote JSON unchecked, so they are JavaScript values.
\<close>

record RoutingResponse =
  selectedModel :: jsval
  estimatedCost :: jsval
  confidence :: jsval
  reasoning :: jsval
  response :: jsval

text \<open>The private fields \<^verbatim>\<open>apiUrl\<close> and \<^verbatim>\<open>apiKey\<close> of a \<^verbatim>\<open>DeimosRouter\<close>.\<close>

record router =
  apiUrl :: jsval
  apiKey :: jsval

definition new_router :: router where
  "new_router = \<lparr>apiUrl = None, apiKey = None\<rparr>"

subsection \<open>loadCredentials\<close>

text \<open>
  One of the two inner \<^verbatim>\<open>try\<close> blocks: read the file, parse it, read the two fields.
  Both fields are read before either is stored, and reading them throws only when the
  parsed value is \<^verbatim>\<open>null\<close>, so the block either stores both or stores nothing.
\<close>

definition read_secrets :: "world \<Rightarrow> string \<Rightarrow> js_error + (jsval \<times> jsval)" where
  "read_secrets w path =
     (case readFile w path of
        Inl e \<Rightarrow> Inl e
      | Inr secretsContent \<Rightarrow>
          (case JSON_parse w secretsContent of
             Inl e \<Rightarrow> Inl e
           | Inr secrets \<Rightarrow>
               (case get_prop (Some secrets) ''api_url'' of
                  Inl e \<Rightarrow> Inl e
                | Inr u \<Rightarrow>
                    (case get_prop (Some secrets) ''api_key'' of
                       Inl e \<Rightarrow> Inl e
                     | Inr k \<Rightarrow> Inr (u, k)))))"

definition credentials_not_found :: string where
  "credentials_not_found =
     ''Deimos API credentials not found. Please set up credentials via:'' @ [CHR 0x0A] @
     ''1. secrets.json file in project root'' @ [CHR 0x0A] @
     ''2. DEIMOS_API_URL and DEIMOS_API_KEY environment variables'' @ [CHR 0x0A] @
     ''3. secrets.json file in home directory''"

text \<open>
  The result is the outcome (\<open>Inl\<close>: the promise rejects) and the router afterwards. The
  environment variables are stored before they are tested, so a failed resolution leaves
  them in the router.
\<close>

definition loadCredentials :: "world \<Rightarrow> router \<Rightarrow> (js_error + unit) \<times> router" where
  "loadCredentials w r =
     (case read_secrets w (join (cwd w) ''secrets.json'') of
        Inr (u, k) \<Rightarrow> (Inr (), r\<lparr>apiUrl := u, apiKey := k\<rparr>)
      | Inl _ \<Rightarrow>
          (let r1 = r\<lparr>apiUrl := map_option JStr (DEIMOS_API_URL w),
                      apiKey := map_option JStr (DEIMOS_API_KEY w)\<rparr>
           in if truthy (apiUrl r1) \<and> truthy (apiKey r1) then (Inr (), r1)
              else (case read_secrets w (join (homedir w) ''secrets.json'') of
                      Inr (u, k) \<Rightarrow> (Inr (), r1\<lparr>apiUrl := u, apiKey := k\<rparr>)
                    | Inl _ \<Rightarrow> (Inl (Error credentials_not_found), r1))))"

subsection \<open>executeLLMCall and fallbackRequest\<close>

text \<open>
  The local variable \<^verbatim>\<open>headers\<close> (lines 110 and 187), of which the
  \<^verbatim>\<open>Authorization\<close> value is kept: building it prints \<^verbatim>\<open>apiKey\<close> in a template
  literal, which may throw.
\<close>

definition headers :: "world \<Rightarrow> router \<Rightarrow> js_error + string" where
  "headers w r =
     (case template (Number_toString w) (apiKey r) of
        Inl e \<Rightarrow> Inl e
      | Inr key \<Rightarrow> Inr (''Bearer '' @ key))"

text \<open>
  The request that a \<^verbatim>\<open>fetch\<close> of the router sends: \<^verbatim>\<open>POST\<close>, the headers and a
  JSON body, to a URL that prints \<^verbatim>\<open>apiUrl\<close> in a template literal. The headers come
  first, as in \<^verbatim>\<open>executeLLMCall\<close>; \<open>Inl\<close> is the TypeError of whichever template
  throws, and then nothing is sent.
\<close>

definition post :: "world \<Rightarrow> router \<Rightarrow> string \<Rightarrow> json \<Rightarrow> js_error + http_request" where
  "post w r path payload =
     (case headers w r of
        Inl e \<Rightarrow> Inl e
      | Inr auth \<Rightarrow>
          (case template (Number_toString w) (apiUrl r) of
             Inl e \<Rightarrow> Inl e
           | Inr base \<Rightarrow>
               Inr \<lparr>url = base @ path,
                    http_method = ''POST'',
                    authorization = auth,
                    content_type = ''application/json'',
                    body = payload\<rparr>))"

text \<open>The local variable \<^verbatim>\<open>fullPrompt\<close>; \<^verbatim>\<open>if (context)\<close> tests truthiness.\<close>

definition fullPrompt :: "string \<Rightarrow> string option \<Rightarrow> string" where
  "fullPrompt p ctx =
     (if truthy (map_option JStr ctx)
      then (case ctx of
              Some c \<Rightarrow> ''Context: '' @ c @ [CHR 0x0A, CHR 0x0A] @ ''Task: '' @ p
            | None \<Rightarrow> p)
      else p)"

text \<open>
  The local variable \<^verbatim>\<open>llmPayload\<close>: \<^verbatim>\<open>if (maxTokens)\<close> tests truthiness,
  \<^verbatim>\<open>if (temperature !== undefined)\<close> tests presence.
\<close>

definition llmPayload ::
  "jsval \<Rightarrow> string \<Rightarrow> string option \<Rightarrow> rat option \<Rightarrow> rat option \<Rightarrow> json" where
  "llmPayload model p ctx maxTok temp =
     JObj (opt_field ''model'' model @
           [(''messages'',
             JArr [JObj [(''role'', JStr ''user''), (''content'', JStr (fullPrompt p ctx))]])] @
           (if truthy (map_option JNum maxTok) then opt_field ''max_tokens'' (map_option JNum maxTok)
            else []) @
           (if temp \<noteq> None then opt_field ''temperature'' (map_option JNum temp) else []))"

text \<open>\<^verbatim>\<open>result.choices[0].message.content\<close>: a chain of property reads.\<close>

definition first_choice_content :: "json \<Rightarrow> js_error + jsval" where
  "first_choice_content result =
     get_path (Some result) [''choices'', ''0'', ''message'', ''content'']"

text \<open>
  \<open>n\<close> is the number of network calls made so far; the call made here is the \<open>n\<close>-th,
  and the count is returned with the outcome. When a template throws, no call is made.
\<close>

definition executeLLMCall ::
  "world \<Rightarrow> router \<Rightarrow> nat \<Rightarrow> jsval \<Rightarrow> string \<Rightarrow> string option \<Rightarrow> rat option \<Rightarrow> rat option
     \<Rightarrow> (js_error + jsval) \<times> nat" where
  "executeLLMCall w r n model p ctx maxTok temp =
     (case post w r ''/chat/completions'' (llmPayload model p ctx maxTok temp) of
        Inl e \<Rightarrow> (Inl e, n)
      | Inr llm_request \<Rightarrow>
     (case fetch w n llm_request of
        Inl e \<Rightarrow> (Inl e, Suc n)
      | Inr llm_response \<Rightarrow>
          if \<not> response_ok llm_response then
            (case body_text llm_response of
               Inl e \<Rightarrow> (Inl e, Suc n)
             | Inr errorText \<Rightarrow>
                 (Inl (Error (''LLM API error '' @ nat_toString (status llm_response) @ '': '' @
                              errorText)), Suc n))
          else
            (case response_json w llm_response of
               Inl e \<Rightarrow> (Inl e, Suc n)
             | Inr result \<Rightarrow> (first_choice_content result, Suc n))))"

definition fallbackRequest ::
  "world \<Rightarrow> router \<Rightarrow> nat \<Rightarrow> RoutingRequest \<Rightarrow> jsval \<times> nat" where
  "fallbackRequest w r n request =
     (case executeLLMCall w r n (Some (JStr ''gpt-3.5-turbo'')) (prompt request)
             (reqContext request) (maxTokens request) (temperature request) of
        (Inr text, n1) \<Rightarrow> (text, n1)
      | (Inl _, n1) \<Rightarrow>
          (Some (JStr (''Error processing request: '' @ take 100 (prompt request) @ ''...'')), n1))"

subsection \<open>routeRequest\<close>

text \<open>The local variable \<^verbatim>\<open>payload\<close>.\<close>

definition payload :: "RoutingRequest \<Rightarrow> json" where
  "payload request =
     JObj ([(''task_type'', JStr (TaskType_value (taskType request))),
            (''prompt'', JStr (prompt request))] @
           opt_field ''context'' (map_option JStr (reqContext request)) @
           [(''preferences'',
             JObj ([(''cost_priority'',
                     JNum (case costPriority request of None \<Rightarrow> 7 / 10 | Some c \<Rightarrow> c))] @
                   opt_field ''max_tokens'' (map_option JNum (maxTokens request)) @
                   opt_field ''temperature'' (map_option JNum (temperature request))))])"

text \<open>
  The body of the \<^verbatim>\<open>try\<close> block: \<open>Inl\<close> is the error the \<^verbatim>\<open>catch\<close> receives.
  The block sends the \<^verbatim>\<open>headers\<close> that \<^verbatim>\<open>routeRequest\<close> built at line 110, before
  entering it; \<open>post\<close> builds the same value again, so when the block runs inside
  \<^verbatim>\<open>routeRequest\<close> the only template that can throw in it is the URL of line 116.
  The model is selected by \<^verbatim>\<open>result.selected_model\<close>, read once for the call and
  again for the returned object.
\<close>

definition routeRequest_try ::
  "world \<Rightarrow> router \<Rightarrow> nat \<Rightarrow> RoutingRequest \<Rightarrow> (js_error + RoutingResponse) \<times> nat" where
  "routeRequest_try w r n request =
     (case post w r ''/route'' (payload request) of
        Inl e \<Rightarrow> (Inl e, n)
      | Inr route_request \<Rightarrow>
     (case fetch w n route_request of
        Inl e \<Rightarrow> (Inl e, Suc n)
      | Inr route_response \<Rightarrow>
          if \<not> response_ok route_response then
            (case body_text route_response of
               Inl e \<Rightarrow> (Inl e, Suc n)
             | Inr errorText \<Rightarrow>
                 (Inl (Error (''Deimos API error '' @ nat_toString (status route_response) @
                              '': '' @ errorText)), Suc n))
          else
            (case response_json w route_response of
               Inl e \<Rightarrow> (Inl e, Suc n)
             | Inr result \<Rightarrow>
                 (case get_prop (Some result) ''selected_model'' of
                    Inl e \<Rightarrow> (Inl e, Suc n)
                  | Inr selected_model \<Rightarrow>
                      (case executeLLMCall w r (Suc n) selected_model (prompt request)
                              (reqContext request) (maxTokens request) (temperature request) of
                         (Inl e, n1) \<Rightarrow> (Inl e, n1)
                       | (Inr llmResponse, n1) \<Rightarrow>
                           (case get_prop (Some result) ''selected_model'' of
                              Inl e \<Rightarrow> (Inl e, n1)
                            | Inr model \<Rightarrow>
                           (case get_prop (Some result) ''estimated_cost'' of
                              Inl e \<Rightarrow> (Inl e, n1)
                            | Inr estimated_cost \<Rightarrow>
                           (case get_prop (Some result) ''confidence'' of
                              Inl e \<Rightarrow> (Inl e, n1)
                            | Inr conf \<Rightarrow>
                           (case get_prop (Some result) ''reasoning'' of
                              Inl e \<Rightarrow> (Inl e, n1)
                            | Inr reason \<Rightarrow>
                                (Inr \<lparr>selectedModel = model,
                                      estimatedCost = Some (nullish estimated_cost (JNum 0)),
                                      confidence = Some (nullish conf (JNum 1)),
                                      reasoning =
                                        Some (nullish reason
                                                (JStr ''Model selected by Deimos Router'')),
                                      response = llmResponse\<rparr>, n1))))))))))"

text \<open>Lines 95 to 97: credentials are resolved again when either is falsy.\<close>

definition ensureCredentials :: "world \<Rightarrow> router \<Rightarrow> (js_error + unit) \<times> router" where
  "ensureCredentials w r =
     (if \<not> truthy (apiUrl r) \<or> \<not> truthy (apiKey r) then loadCredentials w r
      else (Inr (), r))"

text \<open>
  The public entry point. \<open>Inl\<close> is an exception that leaves it. The credentials are
  resolved and the headers are built before the \<^verbatim>\<open>try\<close> block is entered, so an
  error of either leaves the entry point.
\<close>

definition routeRequest ::
  "world \<Rightarrow> router \<Rightarrow> nat \<Rightarrow> RoutingRequest \<Rightarrow> (js_error + RoutingResponse) \<times> router \<times> nat" where
  "routeRequest w r n request =
     (case ensureCredentials w r of
        (Inl e, r1) \<Rightarrow> (Inl e, r1, n)
      | (Inr _, r1) \<Rightarrow>
          (case headers w r1 of
             Inl e \<Rightarrow> (Inl e, r1, n)
           | Inr _ \<Rightarrow>
          (case routeRequest_try w r1 n request of
             (Inr routed, n1) \<Rightarrow> (Inr routed, r1, n1)
           | (Inl error, n1) \<Rightarrow>
               (case fallbackRequest w r1 n1 request of
                  (fallbackResponse, n2) \<Rightarrow>
                    (Inr \<lparr>selectedModel = Some (JStr ''gpt-3.5-turbo''),
                          estimatedCost = Some (JNum (1 / 1000)),
                          confidence = Some (JNum (1 / 2)),
                          reasoning =
                            Some (JStr (''Fallback due to routing error: '' @ error_toString error)),
                          response = fallbackResponse\<rparr>, r1, n2)))))"

subsection \<open>The convenience entry points\<close>

text \<open>
  Each builds its \<^verbatim>\<open>request\<close> and calls \<^verbatim>\<open>routeRequest\<close> on a new router. The
  constructor starts a resolution of its own and does not wait for it, so the router's
  fields are still unset when \<^verbatim>\<open>routeRequest\<close> tests them; that concurrent resolution
  is outside this model. A default parameter value replaces \<^verbatim>\<open>undefined\<close>.
\<close>

definition analysisRequest :: "string \<Rightarrow> string option \<Rightarrow> rat option \<Rightarrow> RoutingRequest" where
  "analysisRequest p ctx cp =
     \<lparr>taskType = ANALYSIS, prompt = p, reqContext = ctx, maxTokens = Some 2000,
      temperature = Some (3 / 10),
      costPriority = Some (case cp of None \<Rightarrow> 7 / 10 | Some c \<Rightarrow> c)\<rparr>"

definition summarizationRequest :: "string \<Rightarrow> string option \<Rightarrow> rat option \<Rightarrow> RoutingRequest" where
  "summarizationRequest p ctx cp =
     \<lparr>taskType = SUMMARIZATION, prompt = p, reqContext = ctx, maxTokens = Some 1000,
      temperature = Some (2 / 10),
      costPriority = Some (case cp of None \<Rightarrow> 8 / 10 | Some c \<Rightarrow> c)\<rparr>"

definition classificationRequest :: "string \<Rightarrow> string option \<Rightarrow> rat option \<Rightarrow> RoutingRequest" where
  "classificationRequest p ctx cp =
     \<lparr>taskType = CLASSIFICATION, prompt = p, reqContext = ctx, maxTokens = Some 500,
      temperature = Some (1 / 10),
      costPriority = Some (case cp of None \<Rightarrow> 9 / 10 | Some c \<Rightarrow> c)\<rparr>"

definition routeAnalysisRequest ::
  "world \<Rightarrow> nat \<Rightarrow> string \<Rightarrow> string option \<Rightarrow> rat option
     \<Rightarrow> (js_error + RoutingResponse) \<times> router \<times> nat" where
  "routeAnalysisRequest w n p ctx cp = routeRequest w new_router n (analysisRequest p ctx cp)"

definition routeSummarizationRequest ::
  "world \<Rightarrow> nat \<Rightarrow> string \<Rightarrow> string option \<Rightarrow> rat option
     \<Rightarrow> (js_error + RoutingResponse) \<times> router \<times> nat" where
  "routeSummarizationRequest w n p ctx cp =
     routeRequest w new_router n (summarizationRequest p ctx cp)"

definition routeClassificationRequest ::
  "world \<Rightarrow> nat \<Rightarrow> string \<Rightarrow> string option \<Rightarrow> rat option
     \<Rightarrow> (js_error + RoutingResponse) \<times> router \<times> nat" where
  "routeClassificationRequest w n p ctx cp =
     routeRequest w new_router n (classificationRequest p ctx cp)"

subsection \<open>Notions used to state the properties\<close>

text \<open>Both environment variables are set and non-empty: the test of line 66.\<close>

definition env_credentials :: "world \<Rightarrow> bool" where
  "env_credentials w \<longleftrightarrow>
     truthy (map_option JStr (DEIMOS_API_URL w)) \<and> truthy (map_option JStr (DEIMOS_API_KEY w))"

text \<open>The routing decision carried by a response: model, cost, confidence, reasoning.\<close>

definition decision :: "RoutingResponse \<Rightarrow> jsval \<times> jsval \<times> jsval \<times> jsval" where
  "decision resp = (selectedModel resp, estimatedCost resp, confidence resp, reasoning resp)"

section \<open>Concrete worlds\<close>

text \<open>
  Small worlds on which the router is run: a file system with at most one file, a
  \<^verbatim>\<open>JSON.parse\<close> that knows the few documents used here, and a network that answers the
  two endpoints of \<^verbatim>\<open>https://api.deimos.com\<close> with fixed responses.
\<close>

definition quoted :: "string \<Rightarrow> string" where
  "quoted s = [CHR 0x22] @ s @ [CHR 0x22]"

definition secrets_text :: string where
  "secrets_text =
     ''{'' @ quoted ''api_url'' @ '':'' @ quoted ''https://api.deimos.com'' @ '','' @
     quoted ''api_key'' @ '':'' @ quoted ''sk-1'' @ ''}''"

definition route_text :: string where
  "route_text = ''{'' @ quoted ''selected_model'' @ '':'' @ quoted ''gpt-4o'' @ ''}''"

definition completion_text :: string where
  "completion_text =
     ''{'' @ quoted ''choices'' @ '':[{'' @ quoted ''message'' @ '':{'' @ quoted ''content'' @
     '':'' @ quoted ''Done.'' @ ''}}]}''"

definition parse_table :: "string \<Rightarrow> js_error + json" where
  "parse_table s =
     (if s = secrets_text
      then Inr (JObj [(''api_url'', JStr ''https://api.deimos.com''), (''api_key'', JStr ''sk-1'')])
      else if s = route_text then Inr (JObj [(''selected_model'', JStr ''gpt-4o'')])
      else if s = completion_text
      then Inr (JObj [(''choices'',
                       JArr [JObj [(''message'', JObj [(''content'', JStr ''Done.'')])]])])
      else if s = ''{}'' then Inr (JObj [])
      else if s = ''null'' then Inr JNull
      else Inl (Thrown ''SyntaxError'' ''Unexpected token''))"

definition no_file :: "string \<Rightarrow> js_error + string" where
  "no_file path = Inl (Error (''ENOENT: no such file or directory, open '' @ path))"

definition one_file :: "string \<Rightarrow> string \<Rightarrow> string \<Rightarrow> js_error + string" where
  "one_file name text path = (if path = name then Inr text else no_file path)"

definition offline :: "nat \<Rightarrow> http_request \<Rightarrow> js_error + http_response" where
  "offline n rq = Inl (TypeError ''fetch failed'')"

definition network ::
  "http_response \<Rightarrow> http_response \<Rightarrow> nat \<Rightarrow> http_request \<Rightarrow> js_error + http_response" where
  "network route_answer llm_answer n rq =
     (if url rq = ''https://api.deimos.com/route'' then Inr route_answer
      else if url rq = ''https://api.deimos.com/chat/completions'' then Inr llm_answer
      else Inl (TypeError ''fetch failed''))"

definition test_world ::
  "(string \<Rightarrow> js_error + string) \<Rightarrow> string option \<Rightarrow> string option
     \<Rightarrow> (nat \<Rightarrow> http_request \<Rightarrow> js_error + http_response) \<Rightarrow> world" where
  "test_world files eu ek net =
     \<lparr>cwd = ''/app'', homedir = ''/home/dev'', readFile = files, JSON_parse = parse_table,
      DEIMOS_API_URL = eu, DEIMOS_API_KEY = ek, fetch = net, Number_toString = (\<lambda>x. ''0'')\<rparr>"

text \<open>No credentials anywhere, and no network.\<close>

definition world_no_credentials :: world where
  "world_no_credentials = test_world no_file None None offline"

text \<open>Credentials in the project file, in the environment, in the home file.\<close>

definition world_project :: world where
  "world_project = test_world (one_file ''/app/secrets.json'' secrets_text) None None offline"

definition world_env :: world where
  "world_env = test_world no_file (Some ''https://api.deimos.com'') (Some ''sk-2'') offline"

definition world_home :: world where
  "world_home =
     test_world (one_file ''/home/dev/secrets.json'' secrets_text)
       (Some ''https://api.deimos.com'') None offline"

text \<open>
  A project file that holds \<^verbatim>\<open>{}\<close>, and one that holds \<^verbatim>\<open>null\<close>, with both environment
  variables set.
\<close>

definition world_project_empty :: world where
  "world_project_empty =
     test_world (one_file ''/app/secrets.json'' ''{}'')
       (Some ''https://api.deimos.com'') (Some ''sk-2'') offline"

definition world_project_null :: world where
  "world_project_null =
     test_world (one_file ''/app/secrets.json'' ''null'')
       (Some ''https://api.deimos.com'') (Some ''sk-2'') offline"

text \<open>The routing endpoint answers 500, with two different bodies; completions answer 503.\<close>

definition world_route_500 :: world where
  "world_route_500 =
     test_world no_file None None
       (network \<lparr>status = 500, body_text = Inr ''overloaded''\<rparr>
                \<lparr>status = 503, body_text = Inr ''down''\<rparr>)"

definition world_route_quota :: world where
  "world_route_quota =
     test_world no_file None None
       (network \<lparr>status = 500, body_text = Inr ''quota exceeded''\<rparr>
                \<lparr>status = 503, body_text = Inr ''down''\<rparr>)"

text \<open>The routing endpoint selects \<^verbatim>\<open>gpt-4o\<close>; completions answer 503.\<close>

definition world_llm_down :: world where
  "world_llm_down =
     test_world no_file None None
       (network \<lparr>status = 200, body_text = Inr route_text\<rparr>
                \<lparr>status = 503, body_text = Inr ''down''\<rparr>)"

text \<open>The routing endpoint answers 200 with \<^verbatim>\<open>{}\<close>; completions succeed.\<close>

definition world_unchecked :: world where
  "world_unchecked =
     test_world no_file None None
       (network \<lparr>status = 200, body_text = Inr ''{}''\<rparr>
                \<lparr>status = 200, body_text = Inr completion_text\<rparr>)"

definition test_router :: router where
  "test_router = \<lparr>apiUrl = Some (JStr ''https://api.deimos.com''), apiKey = Some (JStr ''sk-1'')\<rparr>"

text \<open>
  A router whose key is the object \<^verbatim>\<open>{"toString": null}\<close>, as resolution stores it
  from a secrets file that holds it.
\<close>

definition unprintable_key_router :: router where
  "unprintable_key_router =
     \<lparr>apiUrl = Some (JStr ''https://api.deimos.com''),
      apiKey = Some (JObj [(''toString'', JNull)])\<rparr>"

definition test_request :: RoutingRequest where
  "test_request =
     \<lparr>taskType = CLASSIFICATION, prompt = ''Is this spam?'', reqContext = None,
      maxTokens = None, temperature = None, costPriority = Some (9 / 10)\<rparr>"

section \<open>Properties\<close>

lemmas fixture_defs =
  test_world_def test_router_def test_request_def network_def offline_def no_file_def
  one_file_def parse_table_def secrets_text_def route_text_def completion_text_def quoted_def
  new_router_def world_no_credentials_def world_project_def world_env_def world_home_def
  world_project_empty_def world_project_null_def world_route_500_def world_route_quota_def
  world_llm_down_def world_unchecked_def

lemmas router_defs =
  routeRequest_def ensureCredentials_def loadCredentials_def read_secrets_def join_def
  routeRequest_try_def executeLLMCall_def fallbackRequest_def post_def payload_def
  llmPayload_def fullPrompt_def response_ok_def response_json_def first_choice_content_def
  headers_def Error_def TypeError_def

lemma nat_toString_500: "nat_toString 500 = ''500''"
  by code_simp

lemma nat_toString_503: "nat_toString 503 = ''503''"
  by code_simp

subsection \<open>Credential resolution\<close>

text \<open>
  Claim C6. Credential resolution tries the secrets file of the working directory, then
  the two environment variables (both must be set and non-empty), then the secrets file of
  the home directory. The first source that succeeds gives the credentials. When all three
  fail, resolution fails with an error whose message names the three sources.
\<close>

theorem loadCredentials_order:
  "(read_secrets w (join (cwd w) ''secrets.json'') = Inr (u, k) \<longrightarrow>
      loadCredentials w r = (Inr (), \<lparr>apiUrl = u, apiKey = k\<rparr>))
   \<and> (read_secrets w (join (cwd w) ''secrets.json'') = Inl e \<and> env_credentials w \<longrightarrow>
      loadCredentials w r =
        (Inr (), \<lparr>apiUrl = map_option JStr (DEIMOS_API_URL w),
                  apiKey = map_option JStr (DEIMOS_API_KEY w)\<rparr>))
   \<and> (read_secrets w (join (cwd w) ''secrets.json'') = Inl e \<and> \<not> env_credentials w \<and>
      read_secrets w (join (homedir w) ''secrets.json'') = Inr (u, k) \<longrightarrow>
      loadCredentials w r = (Inr (), \<lparr>apiUrl = u, apiKey = k\<rparr>))
   \<and> (read_secrets w (join (cwd w) ''secrets.json'') = Inl e \<and> \<not> env_credentials w \<and>
      read_secrets w (join (homedir w) ''secrets.json'') = Inl e' \<longrightarrow>
      fst (loadCredentials w r) = Inl (Error credentials_not_found))
   \<and> sublist ''1. secrets.json file in project root'' credentials_not_found
   \<and> sublist ''2. DEIMOS_API_URL and DEIMOS_API_KEY environment variables'' credentials_not_found
   \<and> sublist ''3. secrets.json file in home directory'' credentials_not_found"
proof -
  have s1: "sublist ''1. secrets.json file in project root'' credentials_not_found"
    using sublist_appendI
      [of "''1. secrets.json file in project root''"
          "''Deimos API credentials not found. Please set up credentials via:'' @ [CHR 0x0A]"
          "[CHR 0x0A] @ ''2. DEIMOS_API_URL and DEIMOS_API_KEY environment variables'' @
           [CHR 0x0A] @ ''3. secrets.json file in home directory''"]
    by (simp add: credentials_not_found_def)
  have s2: "sublist ''2. DEIMOS_API_URL and DEIMOS_API_KEY environment variables''
              credentials_not_found"
    using sublist_appendI
      [of "''2. DEIMOS_API_URL and DEIMOS_API_KEY environment variables''"
          "''Deimos API credentials not found. Please set up credentials via:'' @ [CHR 0x0A] @
           ''1. secrets.json file in project root'' @ [CHR 0x0A]"
          "[CHR 0x0A] @ ''3. secrets.json file in home directory''"]
    by (simp add: credentials_not_found_def)
  have s3: "sublist ''3. secrets.json file in home directory'' credentials_not_found"
    using sublist_appendI
      [of "''3. secrets.json file in home directory''"
          "''Deimos API credentials not found. Please set up credentials via:'' @ [CHR 0x0A] @
           ''1. secrets.json file in project root'' @ [CHR 0x0A] @
           ''2. DEIMOS_API_URL and DEIMOS_API_KEY environment variables'' @ [CHR 0x0A]"
          "[]"]
    by (simp add: credentials_not_found_def)
  show ?thesis
    using s1 s2 s3 by (cases r) (simp add: loadCredentials_def env_credentials_def Let_def)
qed

theorem loadCredentials_order_witness:
  "loadCredentials world_project new_router = (Inr (), test_router) \<and>
   loadCredentials world_env new_router =
     (Inr (), \<lparr>apiUrl = Some (JStr ''https://api.deimos.com''), apiKey = Some (JStr ''sk-2'')\<rparr>) \<and>
   loadCredentials world_home new_router = (Inr (), test_router) \<and>
   fst (loadCredentials world_no_credentials new_router) = Inl (Error credentials_not_found)"
proof -
  let ?gone = "\<lambda>dir. Inl (Error (''ENOENT: no such file or directory, open '' @ dir @
                                   ''/secrets.json'')) :: js_error + jsval \<times> jsval"
  have p1: "read_secrets world_project (join (cwd world_project) ''secrets.json'') =
              Inr (apiUrl test_router, apiKey test_router)"
    by (simp add: read_secrets_def join_def fixture_defs)
  have p2: "read_secrets world_env (join (cwd world_env) ''secrets.json'') = ?gone ''/app''"
    and e2: "env_credentials world_env"
    by (simp_all add: read_secrets_def join_def env_credentials_def fixture_defs)
  have p3: "read_secrets world_home (join (cwd world_home) ''secrets.json'') = ?gone ''/app''"
    and e3: "\<not> env_credentials world_home"
    and h3: "read_secrets world_home (join (homedir world_home) ''secrets.json'') =
               Inr (apiUrl test_router, apiKey test_router)"
    by (simp_all add: read_secrets_def join_def env_credentials_def fixture_defs)
  have p4: "read_secrets world_no_credentials (join (cwd world_no_credentials) ''secrets.json'') =
              ?gone ''/app''"
    and e4: "\<not> env_credentials world_no_credentials"
    and h4: "read_secrets world_no_credentials
               (join (homedir world_no_credentials) ''secrets.json'') = ?gone ''/home/dev''"
    by (simp_all add: read_secrets_def join_def env_credentials_def fixture_defs)
  have c1: "loadCredentials world_project new_router = (Inr (), test_router)"
    using loadCredentials_order [where w = world_project and r = new_router] p1 by simp
  have c2: "loadCredentials world_env new_router =
       (Inr (), \<lparr>apiUrl = Some (JStr ''https://api.deimos.com''), apiKey = Some (JStr ''sk-2'')\<rparr>)"
    using loadCredentials_order [where w = world_env and r = new_router] p2 e2
    by (simp add: fixture_defs)
  have c3: "loadCredentials world_home new_router = (Inr (), test_router)"
    using loadCredentials_order [where w = world_home and r = new_router] p3 e3 h3 by simp
  have c4: "fst (loadCredentials world_no_credentials new_router) =
              Inl (Error credentials_not_found)"
    using loadCredentials_order [where w = world_no_credentials and r = new_router] p4 e4 h4
    by simp
  from c1 c2 c3 c4 show ?thesis by simp
qed

text \<open>
  Claim C9 (as amended). If the secrets file of the working directory is readable and
  parses as JSON to a value other than \<^verbatim>\<open>null\<close>, credential resolution succeeds and
  stops there, also when the parsed value lacks \<^verbatim>\<open>api_url\<close> or \<^verbatim>\<open>api_key\<close>: the
  missing credential is left unset, and neither the environment variables nor the home file
  are consulted.
\<close>

theorem project_secrets_accepted_without_fields:
  assumes "readFile w (join (cwd w) ''secrets.json'') = Inr text"
    and "JSON_parse w text = Inr secrets"
    and "secrets \<noteq> JNull"
  shows "loadCredentials w r =
           (Inr (),
            \<lparr>apiUrl = (case secrets of JObj kvs \<Rightarrow> map_of kvs ''api_url'' | _ \<Rightarrow> None),
             apiKey = (case secrets of JObj kvs \<Rightarrow> map_of kvs ''api_key'' | _ \<Rightarrow> None)\<rparr>)"
  using assms by (cases r; cases secrets) (simp_all add: loadCredentials_def read_secrets_def)

theorem project_secrets_accepted_without_fields_witness:
  "readFile world_project_empty (join (cwd world_project_empty) ''secrets.json'') = Inr ''{}'' \<and>
   JSON_parse world_project_empty ''{}'' = Inr (JObj []) \<and>
   env_credentials world_project_empty \<and>
   loadCredentials world_project_empty new_router = (Inr (), \<lparr>apiUrl = None, apiKey = None\<rparr>)"
proof -
  have f: "readFile world_project_empty (join (cwd world_project_empty) ''secrets.json'') =
             Inr ''{}''"
    by (simp add: join_def fixture_defs)
  have j: "JSON_parse world_project_empty ''{}'' = Inr (JObj [])"
    by (simp add: fixture_defs)
  have e: "env_credentials world_project_empty"
    by (simp add: env_credentials_def fixture_defs)
  have "JObj [] \<noteq> JNull" by simp
  from project_secrets_accepted_without_fields [OF f j this, of new_router] f j e
  show ?thesis by simp
qed

text \<open>
  A project file that holds \<^verbatim>\<open>null\<close> is readable and parses as JSON, yet reading
  \<^verbatim>\<open>api_url\<close> from \<^verbatim>\<open>null\<close> throws inside the first \<^verbatim>\<open>try\<close>, so resolution goes on
  to the environment variables.
\<close>

theorem null_secrets_file_falls_through:
  "readFile world_project_null (join (cwd world_project_null) ''secrets.json'') = Inr ''null'' \<and>
   JSON_parse world_project_null ''null'' = Inr JNull \<and>
   loadCredentials world_project_null new_router =
     (Inr (), \<lparr>apiUrl = Some (JStr ''https://api.deimos.com''), apiKey = Some (JStr ''sk-2'')\<rparr>)"
  by (simp add: router_defs fixture_defs)

subsection \<open>The model executor\<close>

text \<open>
  Claim C10. A context given as the empty string is treated as absent by the executor: the
  message content is the bare prompt, the payload is the one built without a context, and
  so is the whole call.
\<close>

theorem empty_context_as_absent:
  "fullPrompt p (Some []) = p \<and>
   llmPayload model p (Some []) maxTok temp = llmPayload model p None maxTok temp \<and>
   executeLLMCall w r n model p (Some []) maxTok temp =
     executeLLMCall w r n model p None maxTok temp"
  by (simp add: fullPrompt_def llmPayload_def executeLLMCall_def)

theorem empty_context_as_absent_witness:
  "fullPrompt ''Fix it'' (Some []) = ''Fix it'' \<and>
   get_path (Some (llmPayload (Some (JStr ''gpt-4o'')) ''Fix it'' (Some []) None None))
     [''messages'', ''0'', ''content''] = Inr (Some (JStr ''Fix it''))"
  using empty_context_as_absent [of "''Fix it''" "Some (JStr ''gpt-4o'')" None None]
  by (simp add: llmPayload_def fullPrompt_def)

text \<open>
  Claim C5 (as amended). In the completion payload, \<^verbatim>\<open>temperature\<close> is included exactly
  when the caller provided it, zero included; \<^verbatim>\<open>max_tokens\<close> is included exactly when
  the caller provided a value other than zero.
\<close>

theorem llmPayload_optional_fields:
  "get_prop (Some (llmPayload model p ctx maxTok temp)) ''max_tokens'' =
     Inr (if maxTok = Some 0 then None else map_option JNum maxTok) \<and>
   get_prop (Some (llmPayload model p ctx maxTok temp)) ''temperature'' =
     Inr (map_option JNum temp)"
  by (cases model; cases maxTok; cases temp) (simp_all add: llmPayload_def)

theorem llmPayload_optional_fields_witness:
  "get_prop (Some (llmPayload (Some (JStr ''gpt-4o'')) ''Fix it'' None (Some 2000) (Some 0)))
     ''max_tokens'' = Inr (Some (JNum 2000)) \<and>
   get_prop (Some (llmPayload (Some (JStr ''gpt-4o'')) ''Fix it'' None (Some 2000) (Some 0)))
     ''temperature'' = Inr (Some (JNum 0)) \<and>
   get_prop (Some (llmPayload (Some (JStr ''gpt-4o'')) ''Fix it'' None None None))
     ''max_tokens'' = Inr None \<and>
   get_prop (Some (llmPayload (Some (JStr ''gpt-4o'')) ''Fix it'' None None None))
     ''temperature'' = Inr None"
  using llmPayload_optional_fields [of "Some (JStr ''gpt-4o'')" "''Fix it''" None "Some 2000" "Some 0"]
    llmPayload_optional_fields [of "Some (JStr ''gpt-4o'')" "''Fix it''" None None None]
  by simp

text \<open>
  A caller who gives \<^verbatim>\<open>maxTokens = 0\<close> and \<^verbatim>\<open>temperature = 0\<close> gets a payload with
  the temperature and without \<^verbatim>\<open>max_tokens\<close>.
\<close>

theorem zero_max_tokens_left_out:
  "llmPayload (Some (JStr ''gpt-4o'')) ''Fix it'' None (Some 0) (Some 0) =
     JObj [(''model'', JStr ''gpt-4o''),
           (''messages'', JArr [JObj [(''role'', JStr ''user''), (''content'', JStr ''Fix it'')]]),
           (''temperature'', JNum 0)]"
  by (simp add: llmPayload_def fullPrompt_def)

text \<open>
  Claim C7 (as amended). The executor sends a single user message. Its content is the
  prompt alone when no context is given or the context is the empty string, and
  \<^verbatim>\<open>Context: {context}\n\nTask: {prompt}\<close> when a non-empty context is given. On a
  success response whose JSON has \<^verbatim>\<open>choices[0].message\<close>, the call returns that
  message's \<^verbatim>\<open>content\<close> as it is.
\<close>

theorem executeLLMCall_message_and_content:
  "get_prop (Some (llmPayload model p ctx maxTok temp)) ''messages'' =
     Inr (Some (JArr [JObj [(''role'', JStr ''user''),
            (''content'',
             JStr (case ctx of
                     None \<Rightarrow> p
                   | Some c \<Rightarrow>
                       if c = [] then p
                       else ''Context: '' @ c @ [CHR 0x0A, CHR 0x0A] @ ''Task: '' @ p))]])) \<and>
   (post w r ''/chat/completions'' (llmPayload model p ctx maxTok temp) = Inr llm_request \<and>
    fetch w n llm_request = Inr llm_response \<and>
    response_ok llm_response \<and> response_json w llm_response = Inr (JObj kvs) \<and>
    map_of kvs ''choices'' = Some (JArr (JObj choice # others)) \<and>
    map_of choice ''message'' = Some (JObj message) \<longrightarrow>
    executeLLMCall w r n model p ctx maxTok temp = (Inr (map_of message ''content''), Suc n))"
  by (cases model; cases ctx)
     (simp_all add: llmPayload_def fullPrompt_def executeLLMCall_def first_choice_content_def)

theorem executeLLMCall_message_and_content_witness:
  "get_prop (Some (llmPayload (Some (JStr ''gpt-4o'')) ''Fix it'' (Some ''cart.js'') None None))
     ''messages'' =
     Inr (Some (JArr [JObj [(''role'', JStr ''user''),
            (''content'', JStr (''Context: cart.js'' @ [CHR 0x0A, CHR 0x0A] @ ''Task: Fix it''))]])) \<and>
   executeLLMCall world_unchecked test_router 1 (Some (JStr ''gpt-4o'')) ''Fix it''
     (Some ''cart.js'') None None = (Inr (Some (JStr ''Done.'')), 2)"
proof -
  let ?rq = "\<lparr>url = ''https://api.deimos.com/chat/completions'', http_method = ''POST'',
              authorization = ''Bearer sk-1'', content_type = ''application/json'',
              body = llmPayload (Some (JStr ''gpt-4o'')) ''Fix it'' (Some ''cart.js'') None None\<rparr>"
  let ?answer = "\<lparr>status = 200, body_text = Inr completion_text\<rparr>"
  have p: "post world_unchecked test_router ''/chat/completions''
             (llmPayload (Some (JStr ''gpt-4o'')) ''Fix it'' (Some ''cart.js'') None None) = Inr ?rq"
    by (simp add: post_def headers_def fixture_defs)
  have f: "fetch world_unchecked 1 ?rq = Inr ?answer"
    by (simp add: fixture_defs)
  have ok: "response_ok ?answer"
    by (simp add: response_ok_def)
  have j: "response_json world_unchecked ?answer =
             Inr (JObj [(''choices'',
                         JArr [JObj [(''message'', JObj [(''content'', JStr ''Done.'')])]])])"
    by (simp add: response_json_def fixture_defs)
  from executeLLMCall_message_and_content
         [where w = world_unchecked and r = test_router and n = 1
            and model = "Some (JStr ''gpt-4o'')" and p = "''Fix it''" and ctx = "Some ''cart.js''"
            and maxTok = None and temp = None and llm_request = ?rq and llm_response = ?answer
            and kvs = "[(''choices'',
                         JArr [JObj [(''message'', JObj [(''content'', JStr ''Done.'')])]])]"
            and choice = "[(''message'', JObj [(''content'', JStr ''Done.'')])]"
            and others = "[]" and message = "[(''content'', JStr ''Done.'')]"]
       p f ok j
  show ?thesis by simp
qed

text \<open>
  With the empty string as context, which the caller did give, the content is the bare
  prompt and not the framed one.
\<close>

theorem empty_context_not_framed:
  "get_path (Some (llmPayload (Some (JStr ''gpt-4o'')) ''Fix it'' (Some []) None None))
     [''messages'', ''0'', ''content''] \<noteq>
   Inr (Some (JStr (''Context: '' @ [] @ [CHR 0x0A, CHR 0x0A] @ ''Task: '' @ ''Fix it'')))"
  by (simp add: llmPayload_def fullPrompt_def)

subsection \<open>The convenience entry points\<close>

text \<open>
  Claim C8. Each convenience entry point calls \<^verbatim>\<open>routeRequest\<close> on a new router with a
  request of its fixed task type, token limit and temperature: analysis 2000 and 0.3,
  summarization 1000 and 0.2, classification 500 and 0.1. The cost priority is the
  caller's, and 0.7, 0.8 and 0.9 respectively when the caller gives none. The routing
  payload of a request without cost priority carries 0.7.
\<close>

theorem convenience_presets:
  "taskType (analysisRequest p ctx cp) = ANALYSIS \<and>
   maxTokens (analysisRequest p ctx cp) = Some 2000 \<and>
   temperature (analysisRequest p ctx cp) = Some (3 / 10) \<and>
   costPriority (analysisRequest p ctx None) = Some (7 / 10) \<and>
   taskType (summarizationRequest p ctx cp) = SUMMARIZATION \<and>
   maxTokens (summarizationRequest p ctx cp) = Some 1000 \<and>
   temperature (summarizationRequest p ctx cp) = Some (2 / 10) \<and>
   costPriority (summarizationRequest p ctx None) = Some (8 / 10) \<and>
   taskType (classificationRequest p ctx cp) = CLASSIFICATION \<and>
   maxTokens (classificationRequest p ctx cp) = Some 500 \<and>
   temperature (classificationRequest p ctx cp) = Some (1 / 10) \<and>
   costPriority (classificationRequest p ctx None) = Some (9 / 10) \<and>
   costPriority (analysisRequest p ctx (Some c)) = Some c \<and>
   costPriority (summarizationRequest p ctx (Some c)) = Some c \<and>
   costPriority (classificationRequest p ctx (Some c)) = Some c \<and>
   prompt (analysisRequest p ctx cp) = p \<and> reqContext (analysisRequest p ctx cp) = ctx \<and>
   prompt (summarizationRequest p ctx cp) = p \<and> reqContext (summarizationRequest p ctx cp) = ctx \<and>
   prompt (classificationRequest p ctx cp) = p \<and>
   reqContext (classificationRequest p ctx cp) = ctx \<and>
   routeAnalysisRequest w n p ctx cp = routeRequest w new_router n (analysisRequest p ctx cp) \<and>
   routeSummarizationRequest w n p ctx cp =
     routeRequest w new_router n (summarizationRequest p ctx cp) \<and>
   routeClassificationRequest w n p ctx cp =
     routeRequest w new_router n (classificationRequest p ctx cp) \<and>
   get_path (Some (payload (request\<lparr>costPriority := None\<rparr>)))
     [''preferences'', ''cost_priority''] = Inr (Some (JNum (7 / 10))) \<and>
   get_path (Some (payload (request\<lparr>costPriority := Some c\<rparr>)))
     [''preferences'', ''cost_priority''] = Inr (Some (JNum c))"
  by (cases "reqContext request")
     (simp_all add: analysisRequest_def summarizationRequest_def classificationRequest_def
        routeAnalysisRequest_def routeSummarizationRequest_def routeClassificationRequest_def
        payload_def)

theorem convenience_presets_witness:
  "analysisRequest ''Why does checkout fail?'' None None =
     \<lparr>taskType = ANALYSIS, prompt = ''Why does checkout fail?'', reqContext = None,
      maxTokens = Some 2000, temperature = Some (3 / 10), costPriority = Some (7 / 10)\<rparr> \<and>
   summarizationRequest ''Why does checkout fail?'' None None =
     \<lparr>taskType = SUMMARIZATION, prompt = ''Why does checkout fail?'', reqContext = None,
      maxTokens = Some 1000, temperature = Some (2 / 10), costPriority = Some (8 / 10)\<rparr> \<and>
   classificationRequest ''Why does checkout fail?'' None None =
     \<lparr>taskType = CLASSIFICATION, prompt = ''Why does checkout fail?'', reqContext = None,
      maxTokens = Some 500, temperature = Some (1 / 10), costPriority = Some (9 / 10)\<rparr> \<and>
   get_path (Some (payload (test_request\<lparr>costPriority := None\<rparr>)))
     [''preferences'', ''cost_priority''] = Inr (Some (JNum (7 / 10)))"
  using convenience_presets
          [where p = "''Why does checkout fail?''" and ctx = None and cp = None
             and request = test_request]
  by (simp add: RoutingRequest.equality)


subsection \<open>The public entry point\<close>

lemma post_headers: "post w r path pl = Inr rq \<Longrightarrow> \<exists>auth. headers w r = Inr auth"
  by (auto simp add: post_def split: sum.splits)

lemma post_any_path:
  "post w r path pl = Inr rq \<Longrightarrow> \<exists>rq'. post w r path' pl' = Inr rq'"
  by (auto simp add: post_def split: sum.splits)

lemma executeLLMCall_count:
  assumes "post w r path pl = Inr rq"
  shows "snd (executeLLMCall w r n model p ctx maxTok temp) = Suc n"
proof -
  from post_any_path [OF assms] obtain rq'
    where "post w r ''/chat/completions'' (llmPayload model p ctx maxTok temp) = Inr rq'"
    by blast
  then show ?thesis
    by (simp add: executeLLMCall_def split: sum.splits)
qed

lemma fallbackRequest_cases:
  "fst (fallbackRequest w r n request) =
     (case fst (executeLLMCall w r n (Some (JStr ''gpt-3.5-turbo'')) (prompt request)
                  (reqContext request) (maxTokens request) (temperature request)) of
        Inr text \<Rightarrow> text
      | Inl e \<Rightarrow>
          Some (JStr (''Error processing request: '' @ take 100 (prompt request) @ ''...'')))"
  by (simp add: fallbackRequest_def split: prod.splits sum.splits)

lemma routeRequest_fallback:
  assumes "ensureCredentials w r = (Inr (), r1)"
    and "headers w r1 = Inr auth"
    and "routeRequest_try w r1 n request = (Inl error, n1)"
  shows "fst (routeRequest w r n request) =
           Inr \<lparr>selectedModel = Some (JStr ''gpt-3.5-turbo''),
                estimatedCost = Some (JNum (1 / 1000)),
                confidence = Some (JNum (1 / 2)),
                reasoning = Some (JStr (''Fallback due to routing error: '' @ error_toString error)),
                response = fst (fallbackRequest w r1 n1 request)\<rparr>"
  using assms by (simp add: routeRequest_def split: prod.splits)

lemma routeRequest_raises:
  assumes "ensureCredentials w r = (Inl e, r1)"
  shows "fst (routeRequest w r n request) = Inl e"
  using assms by (simp add: routeRequest_def)

text \<open>
  Resolution stores what the secrets file holds, unchecked. A key that is an object with a
  \<^verbatim>\<open>toString\<close> field is truthy, so the router counts as having credentials, and printing
  it at line 111, before the \<^verbatim>\<open>try\<close> block, throws out of the entry point.
\<close>

lemma routeRequest_raises_headers:
  assumes "ensureCredentials w r = (Inr (), r1)"
    and "headers w r1 = Inl e"
  shows "fst (routeRequest w r n request) = Inl e"
  using assms by (simp add: routeRequest_def)

lemma unprintable_key_raises:
  "fst (routeRequest world_route_500 unprintable_key_router 0 test_request) =
     Inl (TypeError ''Cannot convert object to primitive value'')"
  by (simp add: routeRequest_def ensureCredentials_def headers_def unprintable_key_router_def)

lemma test_router_ready: "ensureCredentials w test_router = (Inr (), test_router)"
  by (simp add: ensureCredentials_def test_router_def)

lemma test_router_headers: "headers (test_world files eu ek net) test_router = Inr ''Bearer sk-1''"
  by (simp add: headers_def test_router_def test_world_def)

lemma test_router_post:
  "post (test_world files eu ek net) test_router path pl =
     Inr \<lparr>url = ''https://api.deimos.com'' @ path, http_method = ''POST'',
          authorization = ''Bearer sk-1'', content_type = ''application/json'', body = pl\<rparr>"
  by (simp add: post_def headers_def test_router_def test_world_def)

text \<open>
  Claim C1 (as amended). When the router holds credentials, or credential resolution
  succeeds, and the API key can be printed into the \<^verbatim>\<open>Authorization\<close> header (as every
  string can), \<^verbatim>\<open>routeRequest\<close> returns a response and raises nothing: either the
  response built in the \<^verbatim>\<open>try\<close> block, unchecked, from what the two endpoints sent, or
  the fallback response, whose model is \<^verbatim>\<open>gpt-3.5-turbo\<close>. When credential resolution
  fails, \<^verbatim>\<open>routeRequest\<close> raises the error of the resolution.
\<close>

theorem routeRequest_returns_with_credentials:
  "(fst (ensureCredentials w r) = Inr () \<and>
    headers w (snd (ensureCredentials w r)) = Inr auth \<longrightarrow>
      (\<exists>resp. fst (routeRequest w r n request) = Inr resp \<and>
         (fst (routeRequest_try w (snd (ensureCredentials w r)) n request) = Inr resp \<or>
          selectedModel resp = Some (JStr ''gpt-3.5-turbo'')))) \<and>
   (fst (ensureCredentials w r) = Inl e \<longrightarrow> fst (routeRequest w r n request) = Inl e)"
  by (auto simp add: routeRequest_def split: prod.splits sum.splits)

theorem routeRequest_returns_with_credentials_witness:
  "fst (ensureCredentials world_no_credentials test_router) = Inr () \<and>
   headers world_no_credentials (snd (ensureCredentials world_no_credentials test_router)) =
     Inr ''Bearer sk-1'' \<and>
   (\<exists>resp. fst (routeRequest world_no_credentials test_router 0 test_request) = Inr resp \<and>
      (fst (routeRequest_try world_no_credentials
              (snd (ensureCredentials world_no_credentials test_router)) 0 test_request) = Inr resp \<or>
       selectedModel resp = Some (JStr ''gpt-3.5-turbo''))) \<and>
   fst (ensureCredentials world_no_credentials new_router) = Inl (Error credentials_not_found) \<and>
   fst (routeRequest world_no_credentials new_router 7 test_request) =
     Inl (Error credentials_not_found)"
proof -
  have h1: "fst (ensureCredentials world_no_credentials test_router) = Inr ()"
    by (simp add: test_router_ready)
  have k1: "headers world_no_credentials (snd (ensureCredentials world_no_credentials test_router)) =
              Inr ''Bearer sk-1''"
    by (simp add: test_router_ready) (simp add: world_no_credentials_def test_router_headers)
  have h2: "fst (ensureCredentials world_no_credentials new_router) =
              Inl (Error credentials_not_found)"
    by (simp add: ensureCredentials_def loadCredentials_def read_secrets_def join_def
          fixture_defs)
  from routeRequest_returns_with_credentials
         [where w = world_no_credentials and r = test_router and n = 0
            and request = test_request and auth = "''Bearer sk-1''"]
       routeRequest_returns_with_credentials
         [where w = world_no_credentials and r = new_router and n = 7
            and request = test_request and e = "Error credentials_not_found"]
       h1 k1 h2
  show ?thesis by simp
qed

text \<open>
  With no secrets file, no environment variable and a router without credentials, the
  entry point raises: the resolution runs before the \<^verbatim>\<open>try\<close> block.
\<close>

theorem routeRequest_raises_without_credentials:
  "fst (routeRequest world_no_credentials new_router 0 test_request) =
     Inl (Error credentials_not_found)"
  by (simp add: router_defs fixture_defs)

text \<open>
  Claim C2 (as amended). When the routing call is sent and the routing endpoint answers
  with a non-success status, the entry point returns the fixed fallback decision: model
  \<^verbatim>\<open>gpt-3.5-turbo\<close>, cost 0.001, confidence 0.5, and a reasoning that quotes the status
  and the body of the answer. A success answer is not checked for missing fields:
  \<^verbatim>\<open>selected_model\<close> is passed on as it is, also when absent, and absent cost,
  confidence and reasoning default to 0, 1 and a fixed sentence.
\<close>

theorem routing_failure_decision:
  "(fst (ensureCredentials w r) = Inr () \<and>
    post w (snd (ensureCredentials w r)) ''/route'' (payload request) = Inr route_request \<and>
    fetch w n route_request = Inr route_response \<and>
    \<not> response_ok route_response \<and> body_text route_response = Inr errorText \<longrightarrow>
    (\<exists>resp. fst (routeRequest w r n request) = Inr resp \<and>
       decision resp =
         (Some (JStr ''gpt-3.5-turbo''), Some (JNum (1 / 1000)), Some (JNum (1 / 2)),
          Some (JStr (''Fallback due to routing error: Error: Deimos API error '' @
                      nat_toString (status route_response) @ '': '' @ errorText))))) \<and>
   (fst (ensureCredentials w r) = Inr () \<and>
    post w (snd (ensureCredentials w r)) ''/route'' (payload request) = Inr route_request \<and>
    fetch w n route_request = Inr route_response \<and>
    response_ok route_response \<and> response_json w route_response = Inr (JObj kvs) \<and>
    fst (executeLLMCall w (snd (ensureCredentials w r)) (Suc n) (map_of kvs ''selected_model'')
           (prompt request) (reqContext request) (maxTokens request) (temperature request)) =
      Inr llmResponse \<longrightarrow>
    fst (routeRequest w r n request) =
      Inr \<lparr>selectedModel = map_of kvs ''selected_model'',
           estimatedCost = Some (nullish (map_of kvs ''estimated_cost'') (JNum 0)),
           confidence = Some (nullish (map_of kvs ''confidence'') (JNum 1)),
           reasoning = Some (nullish (map_of kvs ''reasoning'')
                               (JStr ''Model selected by Deimos Router'')),
           response = llmResponse\<rparr>)"
proof -
  define r1 where "r1 = snd (ensureCredentials w r)"
  have fallback: "\<exists>resp. fst (routeRequest w r n request) = Inr resp \<and>
       decision resp =
         (Some (JStr ''gpt-3.5-turbo''), Some (JNum (1 / 1000)), Some (JNum (1 / 2)),
          Some (JStr (''Fallback due to routing error: Error: Deimos API error '' @
                      nat_toString (status route_response) @ '': '' @ errorText)))"
    if c: "fst (ensureCredentials w r) = Inr ()"
      and p: "post w r1 ''/route'' (payload request) = Inr route_request"
      and f: "fetch w n route_request = Inr route_response"
      and b: "\<not> response_ok route_response" "body_text route_response = Inr errorText"
  proof -
    have ec: "ensureCredentials w r = (Inr (), r1)"
      using c by (simp add: r1_def prod_eq_iff)
    from post_headers [OF p] obtain auth where h: "headers w r1 = Inr auth" by blast
    have tr: "routeRequest_try w r1 n request =
                (Inl (Error (''Deimos API error '' @ nat_toString (status route_response) @
                             '': '' @ errorText)), Suc n)"
      using p f b by (simp add: routeRequest_try_def)
    from routeRequest_fallback [OF ec h tr] show ?thesis
      by (simp add: decision_def Error_def)
  qed
  have routed: "fst (routeRequest w r n request) =
      Inr \<lparr>selectedModel = map_of kvs ''selected_model'',
           estimatedCost = Some (nullish (map_of kvs ''estimated_cost'') (JNum 0)),
           confidence = Some (nullish (map_of kvs ''confidence'') (JNum 1)),
           reasoning = Some (nullish (map_of kvs ''reasoning'')
                               (JStr ''Model selected by Deimos Router'')),
           response = llmResponse\<rparr>"
    if c: "fst (ensureCredentials w r) = Inr ()"
      and p: "post w r1 ''/route'' (payload request) = Inr route_request"
      and f: "fetch w n route_request = Inr route_response"
      and b: "response_ok route_response" "response_json w route_response = Inr (JObj kvs)"
      and x: "fst (executeLLMCall w r1 (Suc n) (map_of kvs ''selected_model'')
                (prompt request) (reqContext request) (maxTokens request) (temperature request)) =
              Inr llmResponse"
  proof -
    have ec: "ensureCredentials w r = (Inr (), r1)"
      using c by (simp add: r1_def prod_eq_iff)
    from post_headers [OF p] obtain auth where h: "headers w r1 = Inr auth" by blast
    obtain n1 where x': "executeLLMCall w r1 (Suc n) (map_of kvs ''selected_model'')
                (prompt request) (reqContext request) (maxTokens request) (temperature request) =
              (Inr llmResponse, n1)"
      using x by (cases "executeLLMCall w r1 (Suc n) (map_of kvs ''selected_model'')
                (prompt request) (reqContext request) (maxTokens request) (temperature request)")
                 simp
    show ?thesis
      using ec h p f b x' by (simp add: routeRequest_def routeRequest_try_def)
  qed
  from fallback routed show ?thesis
    unfolding r1_def by blast
qed

theorem routing_failure_decision_witness:
  "(\<exists>resp. fst (routeRequest world_route_500 test_router 0 test_request) = Inr resp \<and>
      decision resp =
        (Some (JStr ''gpt-3.5-turbo''), Some (JNum (1 / 1000)), Some (JNum (1 / 2)),
         Some (JStr ''Fallback due to routing error: Error: Deimos API error 500: overloaded''))) \<and>
   fst (routeRequest world_unchecked test_router 0 test_request) =
     Inr \<lparr>selectedModel = None, estimatedCost = Some (JNum 0), confidence = Some (JNum 1),
          reasoning = Some (JStr ''Model selected by Deimos Router''),
          response = Some (JStr ''Done.'')\<rparr>"
proof -
  let ?bad = "\<lparr>status = 500, body_text = Inr ''overloaded''\<rparr>"
  let ?good = "\<lparr>status = 200, body_text = Inr ''{}''\<rparr>"
  let ?rq = "\<lparr>url = ''https://api.deimos.com/route'', http_method = ''POST'',
              authorization = ''Bearer sk-1'', content_type = ''application/json'',
              body = payload test_request\<rparr>"
  have r1: "snd (ensureCredentials world_route_500 test_router) = test_router"
    and r2: "snd (ensureCredentials world_unchecked test_router) = test_router"
    and c1: "fst (ensureCredentials world_route_500 test_router) = Inr ()"
    and c2: "fst (ensureCredentials world_unchecked test_router) = Inr ()"
    by (simp_all add: test_router_ready)
  have p1: "post world_route_500 test_router ''/route'' (payload test_request) = Inr ?rq"
    and p2: "post world_unchecked test_router ''/route'' (payload test_request) = Inr ?rq"
    by (simp_all add: world_route_500_def world_unchecked_def test_router_post)
  have f1: "fetch world_route_500 0 ?rq = Inr ?bad"
    by (simp add: fixture_defs)
  have b1: "\<not> response_ok ?bad" "body_text ?bad = Inr ''overloaded''"
    by (simp_all add: response_ok_def)
  have f2: "fetch world_unchecked 0 ?rq = Inr ?good"
    by (simp add: fixture_defs)
  have b2: "response_ok ?good" "response_json world_unchecked ?good = Inr (JObj [])"
    by (simp_all add: response_ok_def response_json_def fixture_defs)
  have x2: "fst (executeLLMCall world_unchecked test_router (Suc 0) (map_of [] ''selected_model'')
                  (prompt test_request) (reqContext test_request) (maxTokens test_request)
                  (temperature test_request)) = Inr (Some (JStr ''Done.''))"
    by (simp add: executeLLMCall_def world_unchecked_def test_router_post)
       (simp add: response_ok_def response_json_def first_choice_content_def fixture_defs)
  note t1 = routing_failure_decision
              [where w = world_route_500 and r = test_router and n = 0
                 and request = test_request and route_request = ?rq and route_response = ?bad
                 and errorText = "''overloaded''", THEN conjunct1]
  note t2 = routing_failure_decision
              [where w = world_unchecked and r = test_router and n = 0
                 and request = test_request and route_request = ?rq and route_response = ?good
                 and kvs = "[]" and llmResponse = "Some (JStr ''Done.'')", THEN conjunct2]
  from t1 c1 r1 p1 f1 b1 have a1:
    "\<exists>resp. fst (routeRequest world_route_500 test_router 0 test_request) = Inr resp \<and>
       decision resp =
         (Some (JStr ''gpt-3.5-turbo''), Some (JNum (1 / 1000)), Some (JNum (1 / 2)),
          Some (JStr ''Fallback due to routing error: Error: Deimos API error 500: overloaded''))"
    by (simp add: nat_toString_500)
  from t2 c2 r2 p2 f2 b2 x2 have a2:
    "fst (routeRequest world_unchecked test_router 0 test_request) =
       Inr \<lparr>selectedModel = None, estimatedCost = Some (JNum 0), confidence = Some (JNum 1),
            reasoning = Some (JStr ''Model selected by Deimos Router''),
            response = Some (JStr ''Done.'')\<rparr>"
    by simp
  from a1 a2 show ?thesis by simp
qed

text \<open>
  Two runs with the same request and the same router, whose routing endpoint answers 500
  with different bodies, give different decisions: the decision is not a function of the
  request, and remote data is part of it.
\<close>

theorem routing_error_text_in_decision:
  "map_sum id decision (fst (routeRequest world_route_500 test_router 0 test_request)) \<noteq>
   map_sum id decision (fst (routeRequest world_route_quota test_router 0 test_request))"
  by (simp add: router_defs fixture_defs decision_def nat_toString_500 nat_toString_503)

text \<open>
  Claim C3. If the completion call fails for the model the routing endpoint selected and
  again for the fallback model, the entry point still returns a response, and its
  \<^verbatim>\<open>response\<close> field is \<^verbatim>\<open>Error processing request: \<close> followed by the first 100
  characters of the prompt (all of it when shorter) and three dots. That a model was
  selected means that the routing call was sent and answered.
\<close>

theorem both_completions_fail_placeholder:
  assumes "fst (ensureCredentials w r) = Inr ()"
    and "post w (snd (ensureCredentials w r)) ''/route'' (payload request) = Inr route_request"
    and "fetch w n route_request = Inr route_response"
    and "response_ok route_response"
    and "response_json w route_response = Inr result"
    and "get_prop (Some result) ''selected_model'' = Inr model"
    and "fst (executeLLMCall w (snd (ensureCredentials w r)) (Suc n) model (prompt request)
                (reqContext request) (maxTokens request) (temperature request)) = Inl e1"
    and "fst (executeLLMCall w (snd (ensureCredentials w r)) (Suc (Suc n))
                (Some (JStr ''gpt-3.5-turbo'')) (prompt request)
                (reqContext request) (maxTokens request) (temperature request)) = Inl e2"
  shows "\<exists>resp. fst (routeRequest w r n request) = Inr resp \<and>
           response resp =
             Some (JStr (''Error processing request: '' @ take 100 (prompt request) @ ''...''))"
proof -
  define r1 where "r1 = snd (ensureCredentials w r)"
  have ec: "ensureCredentials w r = (Inr (), r1)"
    using assms(1) by (simp add: r1_def prod_eq_iff)
  have p: "post w r1 ''/route'' (payload request) = Inr route_request"
    using assms(2) by (simp add: r1_def)
  from post_headers [OF p] obtain auth where h: "headers w r1 = Inr auth" by blast
  have "snd (executeLLMCall w r1 (Suc n) model (prompt request)
               (reqContext request) (maxTokens request) (temperature request)) = Suc (Suc n)"
    by (rule executeLLMCall_count [OF p])
  with assms(7) have ex: "executeLLMCall w r1 (Suc n) model (prompt request)
      (reqContext request) (maxTokens request) (temperature request) = (Inl e1, Suc (Suc n))"
    by (simp add: r1_def prod_eq_iff)
  have tr: "routeRequest_try w r1 n request = (Inl e1, Suc (Suc n))"
    using p assms(3-6) ex by (simp add: routeRequest_try_def)
  have fb: "fst (fallbackRequest w r1 (Suc (Suc n)) request) =
              Some (JStr (''Error processing request: '' @ take 100 (prompt request) @ ''...''))"
    using assms(8) by (simp add: fallbackRequest_cases r1_def)
  show ?thesis
    using routeRequest_fallback [OF ec h tr] fb by simp
qed

theorem both_completions_fail_placeholder_witness:
  "\<exists>resp. fst (routeRequest world_llm_down test_router 0 test_request) = Inr resp \<and>
     response resp = Some (JStr ''Error processing request: Is this spam?...'')"
proof -
  let ?routed = "\<lparr>status = 200, body_text = Inr route_text\<rparr>"
  let ?down = "Error ''LLM API error 503: down''"
  let ?rq = "\<lparr>url = ''https://api.deimos.com/route'', http_method = ''POST'',
              authorization = ''Bearer sk-1'', content_type = ''application/json'',
              body = payload test_request\<rparr>"
  have c: "fst (ensureCredentials world_llm_down test_router) = Inr ()"
    and r: "snd (ensureCredentials world_llm_down test_router) = test_router"
    by (simp_all add: test_router_ready)
  have p: "post world_llm_down (snd (ensureCredentials world_llm_down test_router)) ''/route''
             (payload test_request) = Inr ?rq"
    by (simp add: r) (simp add: world_llm_down_def test_router_post)
  have f: "fetch world_llm_down 0 ?rq = Inr ?routed"
    by (simp add: fixture_defs)
  have ok: "response_ok ?routed"
    by (simp add: response_ok_def)
  have j: "response_json world_llm_down ?routed = Inr (JObj [(''selected_model'', JStr ''gpt-4o'')])"
    by (simp add: response_json_def fixture_defs)
  have m: "get_prop (Some (JObj [(''selected_model'', JStr ''gpt-4o'')])) ''selected_model'' =
             Inr (Some (JStr ''gpt-4o''))"
    by simp
  have x1: "fst (executeLLMCall world_llm_down
                   (snd (ensureCredentials world_llm_down test_router)) (Suc 0)
                   (Some (JStr ''gpt-4o'')) (prompt test_request) (reqContext test_request)
                   (maxTokens test_request) (temperature test_request)) = Inl ?down"
    by (simp add: r)
       (simp add: executeLLMCall_def post_def headers_def response_ok_def nat_toString_503
          fixture_defs)
  have x2: "fst (executeLLMCall world_llm_down
                   (snd (ensureCredentials world_llm_down test_router)) (Suc (Suc 0))
                   (Some (JStr ''gpt-3.5-turbo'')) (prompt test_request) (reqContext test_request)
                   (maxTokens test_request) (temperature test_request)) = Inl ?down"
    by (simp add: r)
       (simp add: executeLLMCall_def post_def headers_def response_ok_def nat_toString_503
          fixture_defs)
  from both_completions_fail_placeholder [OF c p f ok j m x1 x2]
  show ?thesis by (simp add: test_request_def)
qed

text \<open>
  Claim C4. Whenever the route and execute sequence (the \<^verbatim>\<open>try\<close> block: the routing
  call, its parsing, the completion call) fails, the response that is returned carries the
  model \<^verbatim>\<open>gpt-3.5-turbo\<close>, the cost 0.001, the confidence 0.5, and a reasoning that is
  \<^verbatim>\<open>Fallback due to routing error: \<close> followed by the error that was caught.
\<close>

theorem fallback_decision_fixed:
  assumes "fst (routeRequest w r n request) = Inr resp"
    and "fst (routeRequest_try w (snd (ensureCredentials w r)) n request) = Inl error"
  shows "selectedModel resp = Some (JStr ''gpt-3.5-turbo'') \<and>
         estimatedCost resp = Some (JNum (1 / 1000)) \<and>
         confidence resp = Some (JNum (1 / 2)) \<and>
         reasoning resp = Some (JStr (''Fallback due to routing error: '' @ error_toString error))"
proof -
  obtain c r1 where ec: "ensureCredentials w r = (c, r1)"
    by (cases "ensureCredentials w r")
  obtain t n1 where tr: "routeRequest_try w r1 n request = (t, n1)"
    by (cases "routeRequest_try w r1 n request")
  from assms(2) ec tr have t: "t = Inl error" by simp
  show ?thesis
  proof (cases c)
    case (Inl e)
    with ec have "fst (routeRequest w r n request) = Inl e"
      by (simp add: routeRequest_raises)
    with assms(1) show ?thesis by simp
  next
    case (Inr u)
    show ?thesis
    proof (cases "headers w r1")
      case (Inl e)
      with ec \<open>c = Inr u\<close> have "fst (routeRequest w r n request) = Inl e"
        by (simp add: routeRequest_raises_headers)
      with assms(1) show ?thesis by simp
    next
      case h: (Inr auth)
      from ec \<open>c = Inr u\<close> have ec': "ensureCredentials w r = (Inr (), r1)" by simp
      from tr t have tr': "routeRequest_try w r1 n request = (Inl error, n1)" by simp
      from routeRequest_fallback [OF ec' h tr'] assms(1) show ?thesis by auto
    qed
  qed
qed

theorem fallback_decision_fixed_witness:
  "fst (routeRequest world_llm_down test_router 0 test_request) =
     Inr \<lparr>selectedModel = Some (JStr ''gpt-3.5-turbo''),
          estimatedCost = Some (JNum (1 / 1000)),
          confidence = Some (JNum (1 / 2)),
          reasoning = Some (JStr ''Fallback due to routing error: Error: LLM API error 503: down''),
          response = Some (JStr ''Error processing request: Is this spam?...'')\<rparr> \<and>
   fst (routeRequest_try world_llm_down (snd (ensureCredentials world_llm_down test_router)) 0
          test_request) = Inl (Error ''LLM API error 503: down'')"
proof -
  let ?resp = "\<lparr>selectedModel = Some (JStr ''gpt-3.5-turbo''),
                estimatedCost = Some (JNum (1 / 1000)),
                confidence = Some (JNum (1 / 2)),
                reasoning =
                  Some (JStr ''Fallback due to routing error: Error: LLM API error 503: down''),
                response = Some (JStr ''Error processing request: Is this spam?...'')\<rparr>"
  have h1: "fst (routeRequest world_llm_down test_router 0 test_request) = Inr ?resp"
    by (simp add: router_defs fixture_defs nat_toString_503)
  have h2: "fst (routeRequest_try world_llm_down
                   (snd (ensureCredentials world_llm_down test_router)) 0 test_request) =
              Inl (Error ''LLM API error 503: down'')"
    by (simp add: test_router_ready)
       (simp add: router_defs fixture_defs nat_toString_503)
  from fallback_decision_fixed [OF h1 h2] h1 h2
  show ?thesis by simp
qed

end
